theory Spec2Isabelle
  imports Main
begin

section \<open>The connection layer of mopidy_json_client (client.py)\<close>

text \<open>
  The theory embeds class \<open>SimpleClient\<close> of \<open>mopidy_json_client/client.py\<close>.
  Every method is a function on an explicit \<open>world\<close>: the class attribute
  \<open>request_queue\<close>, the attributes of each instance, and the list of effects the
  code has on its surroundings (log records, threads started, frames sent, handlers
  called), in the order they happen. A method that can raise returns the exception
  beside the world it leaves behind. Each method body runs as one step; where a
  method blocks (\<open>conn_lock.wait\<close>, \<open>wait_for_result\<close>) what the other threads do
  in the meantime is a parameter.
\<close>

subsection \<open>Values, requests, effects\<close>

text \<open>JSON payloads as the Python objects \<open>json.loads\<close> gives.\<close>

datatype json =
    VNone
  | VBool bool
  | VInt int
  | VStr string
  | VList "json list"
  | VDict "(string \<times> json) list"

text \<open>
  The exceptions the modelled paths meet. \<open>AttributeError\<close>: a method called on
  \<open>None\<close>; \<open>TypeError\<close>: arithmetic on \<open>None\<close>; \<open>Sleep_error\<close>: \<open>time.sleep\<close>
  with a negative argument; \<open>Raised\<close>: any other exception, by its text (from the
  transport, a user handler or a wait).
\<close>

datatype exn = AttributeError | TypeError | Sleep_error | MalformedFrame | Raised string

text \<open>
  Modelled from the spec: \<open>RequestMessage\<close> (messages.py is not among the sources).
  A pending call has an identifier, a method name and a parameter set; the code of
  client.py reads \<open>id_msg\<close> and \<open>json_message\<close> and calls \<open>callback\<close> and
  \<open>wait_for_result\<close>.
\<close>

record request =
  id_msg :: int
  method_name :: string
  params :: "(string \<times> json) list"

datatype level = DEBUG | INFO | WARNING

datatype effect =
    Log level string
  | Log_exception exn
  | Set_level level
  | Set_handlers nat
  | Sleep int
  | Start_wsa nat string
  | Close_wsa nat
  | Notify nat
  | Start_handler nat bool
  | Call_error_handler nat json
  | Call_event_handler nat string json
  | Callback request json
  | Send nat request

text \<open>
  \<open>Start_wsa self url\<close>: a \<open>WebSocketApp\<close> for \<open>url\<close> was created and its
  \<open>run_forever\<close> started in a new thread. \<open>Start_handler self b\<close>: a thread was
  started that calls the connection handler with \<open>b\<close>. \<open>Callback r v\<close>:
  \<open>r.callback(v)\<close> was called, which hands \<open>v\<close> to the caller waiting on \<open>r\<close>.
\<close>

subsection \<open>Instances and the world\<close>

text \<open>
  The attributes an instance holds. \<open>connected\<close>, \<open>wsa\<close> and \<open>wsa_thread\<close> are
  class attributes that every assignment through \<open>self\<close> shadows in the instance,
  so they are fields here, starting at the class's values. \<open>wsa\<close> is the URL the
  current \<open>WebSocketApp\<close> was created for; its thread is the \<open>Start_wsa\<close> effect.
\<close>

record client =
  event_handler :: "(string \<Rightarrow> json \<Rightarrow> exn option) option"
  error_handler :: "(json \<Rightarrow> exn option) option"
  connection_handler :: "(bool \<Rightarrow> exn option) option"
  retry_max :: int
  retry_secs :: int
  retry_attemp :: "int option"
  ws_url :: string
  connected :: bool
  wsa :: "string option"

text \<open>
  \<open>request_queue\<close> is assigned once, in the class body, and never through
  \<open>self\<close>: \<open>self.request_queue\<close> is the one list of the class, for every
  instance. Instances are addressed by number.
\<close>

record world =
  request_queue :: "request list"
  objs :: "nat \<Rightarrow> client"
  effects :: "effect list"

definition emit :: "effect \<Rightarrow> world \<Rightarrow> world" where
  "emit e w = w\<lparr>effects := effects w @ [e]\<rparr>"

definition upd :: "nat \<Rightarrow> (client \<Rightarrow> client) \<Rightarrow> world \<Rightarrow> world" where
  "upd self f w = w\<lparr>objs := (objs w)(self := f (objs w self))\<rparr>"

definition and_then ::
  "exn option \<times> world \<Rightarrow> (world \<Rightarrow> exn option \<times> world) \<Rightarrow> exn option \<times> world" where
  "and_then r k = (case r of (None, w) \<Rightarrow> k w | (Some ex, w) \<Rightarrow> (Some ex, w))"

definition sleep :: "int \<Rightarrow> world \<Rightarrow> exn option \<times> world" where
  "sleep secs w = (if secs < 0 then (Some Sleep_error, w) else (None, emit (Sleep secs) w))"

subsection \<open>Connection: public functions\<close>

definition is_connected :: "nat \<Rightarrow> world \<Rightarrow> bool" where
  "is_connected self w = connected (objs w self)"

definition ws_connect :: "nat \<Rightarrow> world \<Rightarrow> world" where
  "ws_connect self w =
     emit (Start_wsa self (ws_url (objs w self)))
       (upd self (\<lambda>c. c\<lparr>wsa := Some (ws_url c)\<rparr>) w)"

text \<open>
  \<open>connect(url, wait_secs)\<close> returns \<open>True\<close>, \<open>None\<close> or \<open>is_connected()\<close>.
  \<open>env\<close> is what the other threads do to the world while the caller waits on
  \<open>conn_lock\<close>.
\<close>

definition connect ::
  "nat \<Rightarrow> string option \<Rightarrow> int \<Rightarrow> (world \<Rightarrow> world) \<Rightarrow> world \<Rightarrow> bool option \<times> world" where
  "connect self url wait_secs env w =
     (if is_connected self w then
        (Some True,
         emit (Log WARNING ''[CONNECTION] Already connected to Mopidy Server at %s'') w)
      else
        let w1 = (case url of
                    None \<Rightarrow> w
                  | Some u \<Rightarrow> if u = [] then w else upd self (\<lambda>c. c\<lparr>ws_url := u\<rparr>) w);
            w2 = upd self
                   (\<lambda>c. c\<lparr>retry_attemp := (if retry_max c = 0 then None else Some 0)\<rparr>) w1;
            w3 = emit (Log DEBUG ''[CONNECTION] Connecting to Mopidy Sever at %s'') w2;
            w4 = ws_connect self w3
        in if wait_secs = 0 then (None, w4)
           else let w5 = env w4 in (Some (is_connected self w5), w5))"

definition disconnect :: "nat \<Rightarrow> world \<Rightarrow> exn option \<times> world" where
  "disconnect self w =
     (let w1 = upd self (\<lambda>c. c\<lparr>retry_attemp := None\<rparr>) w
      in if is_connected self w1 then
           (case wsa (objs w1 self) of
              None \<Rightarrow> (Some AttributeError, w1)
            | Some a \<Rightarrow> (None, emit (Close_wsa self) w1))
         else
           (None, emit (Log WARNING ''[CONNECTION] Already disconnected to Mopidy Server'') w1))"

subsection \<open>Connection: internal functions\<close>

text \<open>
  \<open>_ws_retry\<close> is reached from \<open>_ws_close\<close> only with a counter that is not
  \<open>None\<close>. Under Python 2, which the module is written for, \<open>None\<close> compares below
  every integer, so with \<open>None\<close> the second branch sleeps and then fails to add.
\<close>

definition ws_retry :: "nat \<Rightarrow> world \<Rightarrow> exn option \<times> world" where
  "ws_retry self w =
     (let c = objs w self in
      if retry_max c < 0 then
        and_then (sleep (retry_secs c) w) (\<lambda>w1.
          (None, ws_connect self
                   (emit (Log DEBUG ''[CONNECTION] Reconnecting to Mopidy Sever'') w1)))
      else
        (case retry_attemp c of
           None \<Rightarrow> and_then (sleep (retry_secs c) w) (\<lambda>w1. (Some TypeError, w1))
         | Some a \<Rightarrow>
             if a < retry_max c then
               and_then (sleep (retry_secs c) w) (\<lambda>w1.
                 let w2 = upd self (\<lambda>c. c\<lparr>retry_attemp := Some (a + 1)\<rparr>) w1;
                     w3 = emit (Log DEBUG
                            ''[CONNECTION] Reconnecting to Mopidy Sever. Attemp %d/%d'') w2
                 in (None, ws_connect self w3))
             else
               (None, emit (Log WARNING
                  ''[CONNECTION] Reached maximum of attemps to reconnect (%d)'') w)))"

definition ws_error :: "nat \<Rightarrow> world \<Rightarrow> world" where
  "ws_error self w = w"

definition connection_changed :: "nat \<Rightarrow> bool \<Rightarrow> world \<Rightarrow> world" where
  "connection_changed self b w =
     (let w1 = emit (Notify self) (upd self (\<lambda>c. c\<lparr>connected := b\<rparr>) w)
      in if connection_handler (objs w1 self) = None then w1
         else emit (Start_handler self (connected (objs w1 self))) w1)"

definition ws_open :: "nat \<Rightarrow> world \<Rightarrow> world" where
  "ws_open self w =
     connection_changed self True
       (emit (Log INFO ''[CONNECTION] Mopidy Server is connected'') w)"

definition ws_close :: "nat \<Rightarrow> world \<Rightarrow> exn option \<times> world" where
  "ws_close self w =
     (let w1 = (if is_connected self w then
                  connection_changed self False
                    (emit (Log INFO ''[CONNECTION] Mopidy Sever is disconnected'') w)
                else w)
      in if retry_attemp (objs w1 self) = None then (None, w1) else ws_retry self w1)"

subsection \<open>Requests and responses\<close>

text \<open>
  \<open>_server_request\<close>: \<open>request\<close> is the \<open>RequestMessage\<close> the first line builds,
  \<open>send\<close> is what \<open>wsa.send\<close> raises (the transport is the websocket library), and
  \<open>wait\<close> is what \<open>request.wait_for_result()\<close> gives or raises, with what the
  other threads do to the world while the caller is blocked. The function returns
  \<open>None\<close> or the server's result.
\<close>

definition server_request ::
  "nat \<Rightarrow> request \<Rightarrow> exn option \<Rightarrow> (world \<Rightarrow> (exn + json) \<times> world) \<Rightarrow> world \<Rightarrow> json \<times> world" where
  "server_request self request send wait w =
     (let w1 = w\<lparr>request_queue := request_queue w @ [request]\<rparr>
      in case wsa (objs w1 self) of
           None \<Rightarrow> (VNone, emit (Log_exception AttributeError) w1)
         | Some a \<Rightarrow>
             (case send of
                Some ex \<Rightarrow> (VNone, emit (Log_exception ex) w1)
              | None \<Rightarrow>
                  (case wait (emit (Send self request) w1) of
                     (Inl ex, w2) \<Rightarrow> (VNone, emit (Log_exception ex) w2)
                   | (Inr server_result, w2) \<Rightarrow> (server_result, w2))))"

text \<open>
  \<open>_server_response\<close>: \<open>parse\<close> is \<open>ResponseMessage.parse_json_message\<close>, which is
  not among the sources; it may change the world and may raise.
\<close>

definition server_response ::
  "('m \<Rightarrow> world \<Rightarrow> exn option \<times> world) \<Rightarrow> nat \<Rightarrow> 'm \<Rightarrow> world \<Rightarrow> exn option \<times> world" where
  "server_response parse self message w =
     (case parse message w of
        (None, w1) \<Rightarrow> (None, w1)
      | (Some ex, w1) \<Rightarrow> (None, emit (Log_exception ex) w1))"

subsection \<open>Higher level handlers\<close>

fun find_request :: "int \<Rightarrow> request list \<Rightarrow> request option" where
  "find_request i [] = None"
| "find_request i (r # rs) = (if id_msg r = i then Some r else find_request i rs)"

definition handle_result :: "nat \<Rightarrow> int \<Rightarrow> json \<Rightarrow> world \<Rightarrow> world" where
  "handle_result self i result w =
     (case find_request i (request_queue w) of
        Some r \<Rightarrow>
          (let w1 = emit (Callback r result) w
           in w1\<lparr>request_queue := remove1 r (request_queue w1)\<rparr>)
      | None \<Rightarrow>
          emit (Log WARNING ''Recieved message (id %d) does not match any request'') w)"

definition handle_error :: "nat \<Rightarrow> int \<Rightarrow> json \<Rightarrow> world \<Rightarrow> exn option \<times> world" where
  "handle_error self i err w =
     (case error_handler (objs w self) of
        Some h \<Rightarrow> (h err, emit (Call_error_handler self err) w)
      | None \<Rightarrow> (None, w))"

text \<open>
  \<open>_handle_event\<close> passes the payload as keyword arguments (\<open>**event_data\<close>): a
  payload that is not a mapping raises \<open>TypeError\<close> before the handler is called.
\<close>

fun is_mapping :: "json \<Rightarrow> bool" where
  "is_mapping (VDict kv) = True"
| "is_mapping j = False"

definition handle_event :: "nat \<Rightarrow> string \<Rightarrow> json \<Rightarrow> world \<Rightarrow> exn option \<times> world" where
  "handle_event self event event_data w =
     (case event_handler (objs w self) of
        Some h \<Rightarrow>
          if is_mapping event_data
          then (h event event_data, emit (Call_event_handler self event event_data) w)
          else (Some TypeError, w)
      | None \<Rightarrow> (None, w))"

subsection \<open>Construction\<close>

definition debug_client :: "bool \<Rightarrow> world \<Rightarrow> world" where
  "debug_client debug_value w = emit (Set_level (if debug_value then DEBUG else INFO)) w"

text \<open>
  \<open>__init__\<close> for the new instance \<open>self\<close>. \<open>connected\<close> and \<open>wsa\<close> start at
  the class's \<open>False\<close> and \<open>None\<close>. \<open>ResponseMessage.set_handlers\<close> is called on
  the class, with the bound methods of \<open>self\<close>. \<open>env\<close> is what the other threads
  do during the wait of \<open>connect(wait_secs=5)\<close>. The \<open>CoreController\<close> built last
  only keeps \<open>_server_request\<close> and is left out.
\<close>

definition init ::
  "nat \<Rightarrow> string \<Rightarrow> (string \<Rightarrow> json \<Rightarrow> exn option) option \<Rightarrow> (json \<Rightarrow> exn option) option \<Rightarrow>
   (bool \<Rightarrow> exn option) option \<Rightarrow> bool \<Rightarrow> int \<Rightarrow> int \<Rightarrow> bool \<Rightarrow> (world \<Rightarrow> world) \<Rightarrow> world \<Rightarrow> world" where
  "init self server_addr eh erh ch autoconnect rmax rsecs debug env w =
     (let w1 = debug_client debug w;
          w2 = w1\<lparr>objs := (objs w1)(self :=
                 \<lparr>event_handler = eh, error_handler = erh, connection_handler = ch,
                  retry_max = rmax, retry_secs = rsecs,
                  retry_attemp = (if rmax = 0 then None else Some 0),
                  ws_url = ''ws://'' @ server_addr @ ''/mopidy/ws'',
                  connected = False, wsa = None\<rparr>)\<rparr>;
          w3 = emit (Set_handlers self) w2
      in if autoconnect then snd (connect self None 5 env w3) else w3)"

subsection \<open>The transport's callbacks\<close>

text \<open>
  The websocket library calls \<open>_ws_open\<close>, \<open>_ws_error\<close> and \<open>_ws_close\<close> from the
  thread \<open>_ws_connect\<close> started; an exception of a callback stays in that thread.
  \<open>run_events\<close> is a sequence of such calls on one instance.
\<close>

datatype ws_event = On_open | On_error | On_close

fun on_event :: "nat \<Rightarrow> ws_event \<Rightarrow> world \<Rightarrow> exn option \<times> world" where
  "on_event self On_open w = (None, ws_open self w)"
| "on_event self On_error w = (None, ws_error self w)"
| "on_event self On_close w = ws_close self w"

fun run_events :: "nat \<Rightarrow> ws_event list \<Rightarrow> world \<Rightarrow> world" where
  "run_events self [] w = w"
| "run_events self (e # es) w = run_events self es (snd (on_event self e w))"

text \<open>What a list of effects holds: connections started for an instance, calls of
  its connection handler, and results handed to waiting callers.\<close>

fun is_start :: "nat \<Rightarrow> effect \<Rightarrow> bool" where
  "is_start self (Start_wsa s u) = (s = self)"
| "is_start self e = False"

fun is_handler_call :: "nat \<Rightarrow> effect \<Rightarrow> bool" where
  "is_handler_call self (Start_handler s b) = (s = self)"
| "is_handler_call self e = False"

fun is_callback :: "effect \<Rightarrow> bool" where
  "is_callback (Callback r v) = True"
| "is_callback e = False"

definition started :: "nat \<Rightarrow> effect list \<Rightarrow> nat" where
  "started self es = length (filter (is_start self) es)"

definition handler_calls :: "nat \<Rightarrow> effect list \<Rightarrow> effect list" where
  "handler_calls self es = filter (is_handler_call self) es"

definition resolutions :: "effect list \<Rightarrow> effect list" where
  "resolutions es = filter is_callback es"

text \<open>The delays and the connections started for an instance, in the order they
  happened: a delayed attempt is a \<open>Sleep\<close> followed by a \<open>Start_wsa\<close>.\<close>

fun is_retry_step :: "nat \<Rightarrow> effect \<Rightarrow> bool" where
  "is_retry_step self (Sleep secs) = True"
| "is_retry_step self (Start_wsa s u) = (s = self)"
| "is_retry_step self e = False"

definition retry_steps :: "nat \<Rightarrow> effect list \<Rightarrow> effect list" where
  "retry_steps self es = filter (is_retry_step self) es"

definition delayed_attempts :: "nat \<Rightarrow> int \<Rightarrow> nat \<Rightarrow> string \<Rightarrow> effect list" where
  "delayed_attempts k secs self url = concat (replicate k [Sleep secs, Start_wsa self url])"

text \<open>
  Every connect attempt fails: the library reports the error and the close of each
  attempt, and the next attempt, if \<open>_ws_close\<close> started one, fails in turn. The run
  ends at the first close that starts no attempt; with unbounded retries it never
  ends, so it carries fuel, and \<open>None\<close> is a run that was still going.
\<close>

fun failing_run :: "nat \<Rightarrow> nat \<Rightarrow> world \<Rightarrow> world option" where
  "failing_run 0 self w = None"
| "failing_run (Suc fuel) self w =
     (let w1 = snd (ws_close self (ws_error self w))
      in if started self (effects w) < started self (effects w1)
         then failing_run fuel self w1 else Some w1)"

subsection \<open>Decoding and dispatch\<close>

text \<open>
  Modelled from the spec: \<open>ResponseMessage.parse_json_message\<close> (messages.py is not
  among the sources). A frame is text that is JSON or not. Decoding classifies it by
  the fields present: \<open>result\<close> gives a result, \<open>error\<close> an error, \<open>event\<close> with no
  identifier an event; anything else fails with \<open>MalformedFrame\<close>. A decoded frame
  goes to the handler \<open>set_handlers\<close> registered, of instance \<open>target\<close>.
\<close>

datatype message = Garbage string | Text json

datatype frame = Result int json | Error int json | Event string json

fun json_int :: "json option \<Rightarrow> int option" where
  "json_int (Some (VInt i)) = Some i"
| "json_int j = None"

fun json_str :: "json option \<Rightarrow> string option" where
  "json_str (Some (VStr s)) = Some s"
| "json_str j = None"

definition decode_object :: "(string \<times> json) list \<Rightarrow> exn + frame" where
  "decode_object kv =
     (case map_of kv ''id'' of
        Some j \<Rightarrow>
          (case json_int (Some j) of
             None \<Rightarrow> Inl MalformedFrame
           | Some i \<Rightarrow>
               (case map_of kv ''result'' of
                  Some v \<Rightarrow> Inr (Result i v)
                | None \<Rightarrow>
                    (case map_of kv ''error'' of
                       Some e \<Rightarrow> Inr (Error i e)
                     | None \<Rightarrow> Inl MalformedFrame)))
      | None \<Rightarrow>
          (case json_str (map_of kv ''event'') of
             Some n \<Rightarrow>
               Inr (Event n (case map_of kv ''data'' of None \<Rightarrow> VDict [] | Some d \<Rightarrow> d))
           | None \<Rightarrow> Inl MalformedFrame))"

fun decode :: "message \<Rightarrow> exn + frame" where
  "decode (Text (VDict kv)) = decode_object kv"
| "decode m = Inl MalformedFrame"

definition parse_json_message :: "nat \<Rightarrow> message \<Rightarrow> world \<Rightarrow> exn option \<times> world" where
  "parse_json_message target m w =
     (case decode m of
        Inl ex \<Rightarrow> (Some ex, w)
      | Inr (Result i v) \<Rightarrow> (None, handle_result target i v w)
      | Inr (Error i e) \<Rightarrow> handle_error target i e w
      | Inr (Event n d) \<Rightarrow> handle_event target n d w)"

text \<open>
  Modelled from the spec: the inbound dispatch loop (it is the websocket library's).
  Frames are handled in arrival order; an exception that leaves the per-message
  handler ends the loop.
\<close>

fun receive_loop ::
  "('m \<Rightarrow> world \<Rightarrow> exn option \<times> world) \<Rightarrow> nat \<Rightarrow> 'm list \<Rightarrow> world \<Rightarrow> exn option \<times> world" where
  "receive_loop parse self [] w = (None, w)"
| "receive_loop parse self (m # ms) w =
     (case server_response parse self m w of
        (Some ex, w1) \<Rightarrow> (Some ex, w1)
      | (None, w1) \<Rightarrow> receive_loop parse self ms w1)"

subsection \<open>Concrete worlds\<close>

definition client0 :: client where
  "client0 =
     \<lparr>event_handler = None, error_handler = None, connection_handler = None,
      retry_max = 2, retry_secs = 10, retry_attemp = Some 0,
      ws_url = ''ws://localhost:6680/mopidy/ws'', connected = False, wsa = None\<rparr>"

definition world0 :: world where
  "world0 = \<lparr>request_queue = [], objs = (\<lambda>i. client0), effects = []\<rparr>"

definition req7 :: request where
  "req7 = \<lparr>id_msg = 7, method_name = ''core.get_version'', params = []\<rparr>"

definition world_pending :: world where
  "world_pending =
     \<lparr>request_queue = [req7],
      objs = (\<lambda>i. client0\<lparr>connected := True, wsa := Some ''ws://localhost:6680/mopidy/ws''\<rparr>),
      effects = [Send 0 req7]\<rparr>"

definition world_err :: world where
  "world_err =
     \<lparr>request_queue = [req7],
      objs = (\<lambda>i. client0\<lparr>error_handler := Some (\<lambda>e. None), connected := True,
                            wsa := Some ''ws://localhost:6680/mopidy/ws''\<rparr>),
      effects = [Send 0 req7]\<rparr>"

definition world_handler :: world where
  "world_handler =
     \<lparr>request_queue = [], objs = (\<lambda>i. client0\<lparr>connection_handler := Some (\<lambda>b. None)\<rparr>),
      effects = []\<rparr>"

definition world_retried :: world where
  "world_retried =
     \<lparr>request_queue = [],
      objs = (\<lambda>i. client0\<lparr>retry_attemp := Some 1,
                            wsa := Some ''ws://localhost:6680/mopidy/ws''\<rparr>),
      effects = []\<rparr>"

definition world_negative :: world where
  "world_negative =
     \<lparr>request_queue = [],
      objs = (\<lambda>i. client0\<lparr>retry_secs := - 1, connected := True,
                            wsa := Some ''ws://localhost:6680/mopidy/ws''\<rparr>),
      effects = []\<rparr>"

text \<open>
  \<open>self.request_queue\<close> read through an instance: no instance has an attribute of
  that name, so the lookup ends at the class attribute.
\<close>

definition get_request_queue :: "nat \<Rightarrow> world \<Rightarrow> request list" where
  "get_request_queue self w = request_queue w"

text \<open>Two clients, built one after the other without connecting.\<close>

definition two_clients :: world where
  "two_clients =
     init 1 ''localhost:6681'' None None None False (-1) 10 False (\<lambda>w. w)
       (init 0 ''localhost:6680'' None None None False (-1) 10 False (\<lambda>w. w) world0)"

section \<open>Properties\<close>

subsection \<open>What each step touches\<close>

lemma emit_simps:
  "request_queue (emit e w) = request_queue w"
  "objs (emit e w) = objs w"
  "effects (emit e w) = effects w @ [e]"
  by (simp_all add: emit_def)

lemma upd_simps:
  "request_queue (upd self f w) = request_queue w"
  "objs (upd self f w) self = f (objs w self)"
  "effects (upd self f w) = effects w"
  by (simp_all add: upd_def)

lemma ws_connect_simps:
  "request_queue (ws_connect self w) = request_queue w"
  "effects (ws_connect self w) = effects w @ [Start_wsa self (ws_url (objs w self))]"
  "objs (ws_connect self w) self = (objs w self)\<lparr>wsa := Some (ws_url (objs w self))\<rparr>"
  by (simp_all add: ws_connect_def emit_simps upd_simps)

lemma connection_changed_simps:
  "request_queue (connection_changed self b w) = request_queue w"
  "objs (connection_changed self b w) self = (objs w self)\<lparr>connected := b\<rparr>"
  "effects (connection_changed self b w) =
     effects w @ Notify self #
       (if connection_handler (objs w self) = None then [] else [Start_handler self b])"
  by (simp_all add: connection_changed_def Let_def emit_simps upd_simps)

lemma counts_nil: "started self [] = 0" "handler_calls self [] = []" "resolutions [] = []"
  by (simp_all add: started_def handler_calls_def resolutions_def)

lemma resolutions_append: "resolutions (xs @ ys) = resolutions xs @ resolutions ys"
  by (simp add: resolutions_def)

lemmas close_unfold =
  ws_close_def is_connected_def ws_retry_def Let_def sleep_def and_then_def
  connection_changed_simps ws_connect_simps emit_simps upd_simps

subsection \<open>Pending calls and the transport's callbacks\<close>

lemma ws_retry_queue: "request_queue (snd (ws_retry self w)) = request_queue w"
  by (simp add: ws_retry_def Let_def and_then_def sleep_def emit_simps upd_simps ws_connect_simps
      split: option.splits)

lemma ws_retry_resolutions:
  "resolutions (effects (snd (ws_retry self w))) = resolutions (effects w)"
  by (simp add: ws_retry_def Let_def and_then_def sleep_def emit_simps upd_simps ws_connect_simps
      resolutions_def split: option.splits)

lemma ws_close_queue: "request_queue (snd (ws_close self w)) = request_queue w"
  by (simp add: ws_close_def Let_def ws_retry_queue connection_changed_simps emit_simps)

lemma ws_close_resolutions:
  "resolutions (effects (snd (ws_close self w))) = resolutions (effects w)"
  by (simp add: ws_close_def Let_def ws_retry_resolutions connection_changed_simps emit_simps
      resolutions_append) (simp add: resolutions_def)

lemma ws_open_queue: "request_queue (ws_open self w) = request_queue w"
  by (simp add: ws_open_def connection_changed_simps emit_simps)

lemma ws_open_resolutions: "resolutions (effects (ws_open self w)) = resolutions (effects w)"
  by (simp add: ws_open_def connection_changed_simps emit_simps resolutions_def)

lemma on_event_pending:
  "request_queue (snd (on_event self e w)) = request_queue w"
  "resolutions (effects (snd (on_event self e w))) = resolutions (effects w)"
  by (cases e; simp add: ws_open_queue ws_open_resolutions ws_close_queue ws_close_resolutions
      ws_error_def)+

lemma run_events_pending:
  "request_queue (run_events self evs w) = request_queue w \<and>
   resolutions (effects (run_events self evs w)) = resolutions (effects w)"
  by (induction evs arbitrary: w) (simp_all add: on_event_pending)

text \<open>
  C1, as the spec states it: when the transport closes, every pending call is
  resolved with a connection-lost failure and \<open>request_queue\<close> is empty afterwards.
  \<open>_ws_close\<close> does neither. With a call pending on a connected client, the queue
  after the close still holds the call, and no callback was called.
\<close>

theorem ws_close_counterexample:
  "is_connected 0 world_pending \<and>
   request_queue world_pending = [req7] \<and>
   request_queue (snd (ws_close 0 world_pending)) = [req7] \<and>
   resolutions (effects (snd (ws_close 0 world_pending))) = []"
  by (simp add: world_pending_def client0_def is_connected_def ws_close_def ws_retry_def
      connection_changed_def sleep_def and_then_def emit_def upd_def ws_connect_def
      resolutions_def Let_def)

text \<open>
  C1, amended: handling a transport close resolves no pending call and leaves
  \<open>request_queue\<close> as it was, and so does every later sequence of open, error and
  close callbacks: a call pending before the close is still pending after it, also
  across a reconnect.
\<close>

theorem ws_close_keeps_pending:
  "request_queue (snd (ws_close self w)) = request_queue w \<and>
   resolutions (effects (snd (ws_close self w))) = resolutions (effects w) \<and>
   request_queue (run_events self evs (snd (ws_close self w))) = request_queue w \<and>
   resolutions (effects (run_events self evs (snd (ws_close self w)))) = resolutions (effects w)"
  by (simp add: ws_close_queue ws_close_resolutions run_events_pending)

subsection \<open>Error responses\<close>

text \<open>
  C2, as the spec states it: an error response to a call's id resolves that call,
  removes it from the table and reaches the caller of that call only.
  \<open>_handle_error\<close> never looks at the id. With call 7 pending and an error handler
  registered, the error for id 7 goes to the client's error handler and call 7 is
  still in the queue.
\<close>

theorem handle_error_counterexample:
  "find_request 7 (request_queue world_err) = Some req7 \<and>
   fst (handle_error 0 7 (VStr ''boom'') world_err) = None \<and>
   request_queue (snd (handle_error 0 7 (VStr ''boom'') world_err)) = [req7] \<and>
   effects (snd (handle_error 0 7 (VStr ''boom'') world_err)) =
     [Send 0 req7, Call_error_handler 0 (VStr ''boom'')]"
  by (simp add: world_err_def client0_def handle_error_def emit_def req7_def)

text \<open>
  C2, amended: an error response resolves no pending call and leaves
  \<open>request_queue\<close> as it was; when the client has an error handler, the error
  payload is passed to that handler, whichever call it answers, and what the
  handler raises is what \<open>_handle_error\<close> raises.
\<close>

theorem handle_error_keeps_pending:
  "request_queue (snd (handle_error self i err w)) = request_queue w \<and>
   resolutions (effects (snd (handle_error self i err w))) = resolutions (effects w) \<and>
   (error_handler (objs w self) = Some h \<longrightarrow>
      handle_error self i err w = (h err, emit (Call_error_handler self err) w))"
  by (simp add: handle_error_def emit_simps resolutions_def split: option.splits)

theorem handle_error_keeps_pending_witness:
  "error_handler (objs world_err 0) = Some (\<lambda>e. None) \<and>
   request_queue (snd (handle_error 0 7 (VStr ''boom'') world_err)) = request_queue world_err \<and>
   handle_error 0 7 (VStr ''boom'') world_err =
     (None, emit (Call_error_handler 0 (VStr ''boom'')) world_err)"
  using handle_error_keeps_pending [of 0 7 "VStr ''boom''" world_err "\<lambda>e. None"]
  by (simp add: world_err_def client0_def emit_def)

subsection \<open>A send that fails\<close>

text \<open>
  C3, as the spec states it: when the send fails at once, the call fails with
  \<open>NotConnected\<close> and no registration is left. \<open>_server_request\<close> appends the
  request before it sends, catches the exception and returns \<open>None\<close>. On a client
  that never connected, the call returns \<open>None\<close> and the request is in the queue.
\<close>

theorem server_request_counterexample:
  "wsa (objs world0 0) = None \<and>
   fst (server_request 0 req7 None (\<lambda>w. (Inr VNone, w)) world0) = VNone \<and>
   request_queue (snd (server_request 0 req7 None (\<lambda>w. (Inr VNone, w)) world0)) = [req7] \<and>
   effects (snd (server_request 0 req7 None (\<lambda>w. (Inr VNone, w)) world0)) =
     [Log_exception AttributeError]"
  by (simp add: world0_def client0_def server_request_def emit_def Let_def)

text \<open>
  C3, amended: when the send fails at once (there is no \<open>WebSocketApp\<close> yet, or
  its \<open>send\<close> raises), \<open>_server_request\<close> logs the exception and returns \<open>None\<close>
  without waiting; no exception reaches the caller, and the request appended before
  the send stays at the end of \<open>request_queue\<close>.
\<close>

theorem server_request_send_fails:
  "(wsa (objs w self) = None \<longrightarrow>
      server_request self r send wait w =
        (VNone, emit (Log_exception AttributeError) (w\<lparr>request_queue := request_queue w @ [r]\<rparr>))) \<and>
   (wsa (objs w self) \<noteq> None \<longrightarrow>
      server_request self r (Some ex) wait w =
        (VNone, emit (Log_exception ex) (w\<lparr>request_queue := request_queue w @ [r]\<rparr>)))"
  by (auto simp add: server_request_def Let_def split: option.splits)

theorem server_request_send_fails_witness:
  "wsa (objs world0 0) = None \<and> wsa (objs world_pending 0) \<noteq> None \<and>
   server_request 0 req7 None (\<lambda>w. (Inr VNone, w)) world0 =
     (VNone, emit (Log_exception AttributeError) (world0\<lparr>request_queue := [req7]\<rparr>)) \<and>
   server_request 0 req7 (Some (Raised ''socket is already closed'')) (\<lambda>w. (Inr VNone, w))
       world_pending =
     (VNone, emit (Log_exception (Raised ''socket is already closed''))
        (world_pending\<lparr>request_queue := [req7, req7]\<rparr>))"
  using server_request_send_fails [of world0 0 req7 None "\<lambda>w. (Inr VNone, w)"]
    server_request_send_fails [of world_pending 0 req7 None "\<lambda>w. (Inr VNone, w)"
      "Raised ''socket is already closed''"]
  by (simp add: world0_def world_pending_def client0_def)

subsection \<open>One queue for every instance\<close>

text \<open>
  C4: the pending-call table is per-instance state. The code keeps one list for the
  class. With two clients, a call issued on client 0 appears in the queue client 1
  reads, and a result that client 1 handles for id 7 resolves the call of client 0.
\<close>

theorem request_queue_shared:
  "get_request_queue 1 two_clients = [] \<and>
   get_request_queue 1 (snd (server_request 0 req7 None (\<lambda>w. (Inl (Raised ''timeout''), w))
       two_clients)) = [req7] \<and>
   resolutions (effects (handle_result 1 7 (VStr ''2.0'')
     (snd (server_request 0 req7 None (\<lambda>w. (Inl (Raised ''timeout''), w)) two_clients)))) =
     [Callback req7 (VStr ''2.0'')]"
  by (simp add: get_request_queue_def two_clients_def init_def debug_client_def world0_def
      server_request_def handle_result_def emit_def Let_def resolutions_def req7_def)

subsection \<open>Reconnecting\<close>

lemma ws_open_simps:
  "objs (ws_open self w) self = (objs w self)\<lparr>connected := True\<rparr>"
  "started self (effects (ws_open self w)) = started self (effects w)"
  by (simp_all add: ws_open_def connection_changed_simps emit_simps started_def)

lemma ws_close_no_retry:
  assumes "retry_attemp (objs w self) = None"
  shows "fst (ws_close self w) = None"
    and "retry_attemp (objs (snd (ws_close self w)) self) = None"
    and "started self (effects (snd (ws_close self w))) = started self (effects w)"
    and "handler_calls self (effects (snd (ws_close self w))) =
           handler_calls self (effects w) @
             (if connected (objs w self) \<and> connection_handler (objs w self) \<noteq> None
              then [Start_handler self False] else [])"
  using assms
  by (simp_all add: ws_close_def Let_def connection_changed_simps emit_simps started_def
      handler_calls_def is_connected_def)

lemma on_event_no_retry:
  assumes "retry_attemp (objs w self) = None"
  shows "retry_attemp (objs (snd (on_event self e w)) self) = None \<and>
         started self (effects (snd (on_event self e w))) = started self (effects w)"
  using assms by (cases e) (simp_all add: ws_open_simps ws_close_no_retry ws_error_def)

lemma run_events_no_retry:
  "retry_attemp (objs w self) = None \<Longrightarrow>
   started self (effects (run_events self evs w)) = started self (effects w)"
  by (induction evs arbitrary: w) (simp_all add: on_event_no_retry)

lemma disconnect_simps:
  "retry_attemp (objs (snd (disconnect self w)) self) = None"
  "started self (effects (snd (disconnect self w))) = started self (effects w)"
  by (simp_all add: disconnect_def Let_def is_connected_def upd_simps emit_simps started_def
      split: option.splits)

text \<open>One close with retries left, and one with none left.\<close>

lemma ws_close_step_retry:
  assumes "retry_attemp (objs w self) = Some a"
    and "retry_max (objs w self) < 0 \<or> a < retry_max (objs w self)"
    and "0 \<le> retry_secs (objs w self)"
  shows "fst (ws_close self w) = None"
    and "started self (effects (snd (ws_close self w))) = started self (effects w) + 1"
    and "retry_attemp (objs (snd (ws_close self w)) self) =
           (if retry_max (objs w self) < 0 then Some a else Some (a + 1))"
    and "retry_max (objs (snd (ws_close self w)) self) = retry_max (objs w self)"
    and "retry_secs (objs (snd (ws_close self w)) self) = retry_secs (objs w self)"
    and "connection_handler (objs (snd (ws_close self w)) self) = connection_handler (objs w self)"
    and "\<not> connected (objs (snd (ws_close self w)) self)"
    and "wsa (objs (snd (ws_close self w)) self) = Some (ws_url (objs w self))"
    and "handler_calls self (effects (snd (ws_close self w))) =
           handler_calls self (effects w) @
             (if connected (objs w self) \<and> connection_handler (objs w self) \<noteq> None
              then [Start_handler self False] else [])"
  using assms by (auto simp add: close_unfold started_def handler_calls_def)

lemma ws_close_step_exhausted:
  assumes "retry_attemp (objs w self) = Some a"
    and "0 \<le> retry_max (objs w self)" and "retry_max (objs w self) \<le> a"
  shows "fst (ws_close self w) = None"
    and "started self (effects (snd (ws_close self w))) = started self (effects w)"
    and "last (effects (snd (ws_close self w))) =
           Log WARNING ''[CONNECTION] Reached maximum of attemps to reconnect (%d)''"
    and "handler_calls self (effects (snd (ws_close self w))) =
           handler_calls self (effects w) @
             (if connected (objs w self) \<and> connection_handler (objs w self) \<noteq> None
              then [Start_handler self False] else [])"
  using assms by (auto simp add: close_unfold started_def handler_calls_def)

lemma ws_close_step_retry_delay:
  assumes "retry_attemp (objs w self) = Some a"
    and "retry_max (objs w self) < 0 \<or> a < retry_max (objs w self)"
    and "0 \<le> retry_secs (objs w self)"
  shows "ws_url (objs (snd (ws_close self w)) self) = ws_url (objs w self)"
    and "retry_steps self (effects (snd (ws_close self w))) =
           retry_steps self (effects w) @
             [Sleep (retry_secs (objs w self)), Start_wsa self (ws_url (objs w self))]"
  using assms by (auto simp add: close_unfold retry_steps_def)

lemma ws_close_step_exhausted_delay:
  assumes "retry_attemp (objs w self) = Some a"
    and "0 \<le> retry_max (objs w self)" and "retry_max (objs w self) \<le> a"
  shows "retry_steps self (effects (snd (ws_close self w))) = retry_steps self (effects w)"
  using assms by (auto simp add: close_unfold retry_steps_def)

lemma ws_close_no_retry_delay:
  assumes "retry_attemp (objs w self) = None"
  shows "retry_steps self (effects (snd (ws_close self w))) = retry_steps self (effects w)"
  using assms
  by (simp add: ws_close_def Let_def connection_changed_simps emit_simps retry_steps_def
      is_connected_def)

text \<open>
  C5, as the spec states it: an unexpected close with retries remaining makes a
  reconnect attempt. \<open>retry_secs\<close> is taken as given, and \<open>time.sleep\<close> raises
  on a negative one before \<open>_ws_connect\<close> is reached. A connected client with
  \<open>retry_max = 2\<close>, no retry used and \<open>retry_secs = -1\<close> loses its connection: the
  close raises and no connection is started.
\<close>

theorem negative_delay_counterexample:
  "is_connected 0 world_negative \<and>
   retry_attemp (objs world_negative 0) = Some 0 \<and>
   retry_max (objs world_negative 0) = 2 \<and>
   retry_secs (objs world_negative 0) = - 1 \<and>
   fst (ws_close 0 world_negative) = Some Sleep_error \<and>
   started 0 (effects (snd (ws_close 0 world_negative))) = 0 \<and>
   retry_steps 0 (effects (snd (ws_close 0 world_negative))) = []"
  by (simp add: world_negative_def client0_def close_unfold started_def retry_steps_def)

text \<open>
  C5, amended: after \<open>disconnect\<close>, no sequence of open, error and close callbacks
  starts a connection attempt; and a close that finds the counter set, with retries
  unbounded or the counter below \<open>retry_max\<close>, and a delay that is not negative,
  raises nothing and starts exactly one attempt, for the stored URL, after sleeping
  for the delay.
\<close>

theorem disconnect_no_reconnect:
  "started self (effects (run_events self evs (snd (disconnect self w)))) =
     started self (effects w) \<and>
   (retry_attemp (objs w self) = Some a \<and>
    (retry_max (objs w self) < 0 \<or> a < retry_max (objs w self)) \<and>
    0 \<le> retry_secs (objs w self) \<longrightarrow>
      fst (ws_close self w) = None \<and>
      started self (effects (snd (ws_close self w))) = started self (effects w) + 1 \<and>
      wsa (objs (snd (ws_close self w)) self) = Some (ws_url (objs w self)) \<and>
      retry_steps self (effects (snd (ws_close self w))) =
        retry_steps self (effects w) @
          [Sleep (retry_secs (objs w self)), Start_wsa self (ws_url (objs w self))])"
  by (simp add: run_events_no_retry disconnect_simps ws_close_step_retry
      ws_close_step_retry_delay)

theorem disconnect_no_reconnect_witness:
  "started 0 (effects (run_events 0 [On_close, On_open, On_close]
      (snd (disconnect 0 world_pending)))) = 0 \<and>
   retry_attemp (objs world_pending 0) = Some 0 \<and>
   started 0 (effects (snd (ws_close 0 world_pending))) = 1 \<and>
   wsa (objs (snd (ws_close 0 world_pending)) 0) = Some ''ws://localhost:6680/mopidy/ws'' \<and>
   retry_steps 0 (effects (snd (ws_close 0 world_pending))) =
     [Sleep 10, Start_wsa 0 ''ws://localhost:6680/mopidy/ws'']"
  using disconnect_no_reconnect [of 0 "[On_close, On_open, On_close]" world_pending 0]
  by (simp add: world_pending_def client0_def started_def retry_steps_def)

subsection \<open>A bounded number of retries\<close>

lemma delayed_attempts_Suc:
  "delayed_attempts (Suc k) secs self url =
     [Sleep secs, Start_wsa self url] @ delayed_attempts k secs self url"
  by (simp add: delayed_attempts_def)

lemma failing_run_bounded:
  assumes "retry_attemp (objs w self) = Some a"
    and "0 \<le> retry_max (objs w self)" and "a \<le> retry_max (objs w self)"
    and "0 \<le> retry_secs (objs w self)"
    and "nat (retry_max (objs w self) - a) < fuel"
  shows "\<exists>w'. failing_run fuel self w = Some w' \<and>
           started self (effects w') = started self (effects w) + nat (retry_max (objs w self) - a) \<and>
           retry_steps self (effects w') =
             retry_steps self (effects w) @
               delayed_attempts (nat (retry_max (objs w self) - a))
                 (retry_secs (objs w self)) self (ws_url (objs w self)) \<and>
           handler_calls self (effects w') =
             handler_calls self (effects w) @
               (if connected (objs w self) \<and> connection_handler (objs w self) \<noteq> None
                then [Start_handler self False] else []) \<and>
           last (effects w') =
             Log WARNING ''[CONNECTION] Reached maximum of attemps to reconnect (%d)'' \<and>
           request_queue w' = request_queue w \<and>
           resolutions (effects w') = resolutions (effects w)"
  using assms
proof (induction fuel arbitrary: w a)
  case 0
  then show ?case by simp
next
  case (Suc fuel)
  let ?n = "retry_max (objs w self)"
  let ?w1 = "snd (ws_close self w)"
  show ?case
  proof (cases "a < ?n")
    case True
    have cond: "?n < 0 \<or> a < ?n" using True by simp
    note step = ws_close_step_retry [OF Suc.prems(1) cond Suc.prems(4)]
    note delay = ws_close_step_retry_delay [OF Suc.prems(1) cond Suc.prems(4)]
    have ra: "retry_attemp (objs ?w1 self) = Some (a + 1)"
      using step(3) Suc.prems(2) by simp
    have run: "failing_run (Suc fuel) self w = failing_run fuel self ?w1"
      using step(2) by (simp add: ws_error_def)
    have "\<exists>w'. failing_run fuel self ?w1 = Some w' \<and>
           started self (effects w') =
             started self (effects ?w1) + nat (retry_max (objs ?w1 self) - (a + 1)) \<and>
           retry_steps self (effects w') =
             retry_steps self (effects ?w1) @
               delayed_attempts (nat (retry_max (objs ?w1 self) - (a + 1)))
                 (retry_secs (objs ?w1 self)) self (ws_url (objs ?w1 self)) \<and>
           handler_calls self (effects w') =
             handler_calls self (effects ?w1) @
               (if connected (objs ?w1 self) \<and> connection_handler (objs ?w1 self) \<noteq> None
                then [Start_handler self False] else []) \<and>
           last (effects w') =
             Log WARNING ''[CONNECTION] Reached maximum of attemps to reconnect (%d)'' \<and>
           request_queue w' = request_queue ?w1 \<and>
           resolutions (effects w') = resolutions (effects ?w1)"
    proof (rule Suc.IH [OF ra])
      show "0 \<le> retry_max (objs ?w1 self)" using step(4) Suc.prems(2) by simp
      show "a + 1 \<le> retry_max (objs ?w1 self)" using step(4) True by simp
      show "0 \<le> retry_secs (objs ?w1 self)" using step(5) Suc.prems(4) by simp
      show "nat (retry_max (objs ?w1 self) - (a + 1)) < fuel"
        using step(4) Suc.prems(5) True by simp
    qed
    then obtain w' where w': "failing_run fuel self ?w1 = Some w'"
      and s: "started self (effects w') =
             started self (effects ?w1) + nat (retry_max (objs ?w1 self) - (a + 1))"
      and d: "retry_steps self (effects w') =
             retry_steps self (effects ?w1) @
               delayed_attempts (nat (retry_max (objs ?w1 self) - (a + 1)))
                 (retry_secs (objs ?w1 self)) self (ws_url (objs ?w1 self))"
      and h: "handler_calls self (effects w') =
             handler_calls self (effects ?w1) @
               (if connected (objs ?w1 self) \<and> connection_handler (objs ?w1 self) \<noteq> None
                then [Start_handler self False] else [])"
      and l: "last (effects w') =
             Log WARNING ''[CONNECTION] Reached maximum of attemps to reconnect (%d)''"
      and q: "request_queue w' = request_queue ?w1"
      and r: "resolutions (effects w') = resolutions (effects ?w1)"
      by blast
    have s': "started self (effects w') = started self (effects w) + nat (?n - a)"
      using s step(2) step(4) True by simp
    have k: "nat (?n - a) = Suc (nat (?n - (a + 1)))"
      using True by simp
    have d': "retry_steps self (effects w') =
             retry_steps self (effects w) @
               delayed_attempts (nat (?n - a)) (retry_secs (objs w self)) self
                 (ws_url (objs w self))"
      unfolding k delayed_attempts_Suc using d step(4) step(5) delay by simp
    have h': "handler_calls self (effects w') =
             handler_calls self (effects w) @
               (if connected (objs w self) \<and> connection_handler (objs w self) \<noteq> None
                then [Start_handler self False] else [])"
      using h step(7) step(9) by simp
    show ?thesis
      using run w' s' d' h' l q r by (simp add: ws_close_queue ws_close_resolutions)
  next
    case False
    then have le: "?n \<le> a" by simp
    note step = ws_close_step_exhausted [OF Suc.prems(1) Suc.prems(2) le]
    note delay = ws_close_step_exhausted_delay [OF Suc.prems(1) Suc.prems(2) le]
    have run: "failing_run (Suc fuel) self w = Some ?w1"
      using step(2) by (simp add: ws_error_def)
    have z: "nat (?n - a) = 0" using le by simp
    show ?thesis
      using run step delay z
      by (simp add: ws_close_queue ws_close_resolutions delayed_attempts_def)
  qed
qed

text \<open>
  C6, as the spec states it: with \<open>retry_max = 2\<close> and every attempt failing, the
  client retries twice, stops, and reports the exhaustion through the connection
  handler. The code only logs a warning. A client with a connection handler
  connects; the attempt and both retries fail; three connections were started in
  all, the last effect is the warning, and the handler was never called.
\<close>

theorem retries_exhausted_counterexample:
  "connection_handler (objs world_handler 0) \<noteq> None \<and>
   map_option (\<lambda>w. (started 0 (effects w), handler_calls 0 (effects w), last (effects w)))
     (failing_run (Suc (Suc (Suc (Suc 0)))) 0 (snd (connect 0 None 0 (\<lambda>w. w) world_handler))) =
   Some (3, [], Log WARNING ''[CONNECTION] Reached maximum of attemps to reconnect (%d)'')"
  by (simp add: world_handler_def client0_def connect_def close_unfold ws_error_def
      started_def handler_calls_def)

text \<open>
  C6, amended: with \<open>retry_max = n\<close>, \<open>0 \<le> n\<close>, a delay that is not negative, the
  counter as \<open>connect\<close> leaves it and every connect attempt failing, the run of
  closes ends, after exactly \<open>n\<close> reconnect attempts, each for the stored URL and
  each after a sleep of \<open>retry_secs\<close>, and no other sleep or attempt. The
  connection handler is called only for the change of connectivity (once, with
  \<open>False\<close>, when the client was connected at the first close), never for the
  exhaustion, which for \<open>0 < n\<close> is the warning logged last; no pending call is
  resolved or removed.
\<close>

theorem retries_bounded:
  assumes "retry_max (objs w self) = n" and "0 \<le> n"
    and "retry_attemp (objs w self) = (if n = 0 then None else Some 0)"
    and "0 \<le> retry_secs (objs w self)"
    and "nat n < fuel"
  shows "\<exists>w'. failing_run fuel self w = Some w' \<and>
           started self (effects w') = started self (effects w) + nat n \<and>
           retry_steps self (effects w') =
             retry_steps self (effects w) @
               delayed_attempts (nat n) (retry_secs (objs w self)) self (ws_url (objs w self)) \<and>
           handler_calls self (effects w') =
             handler_calls self (effects w) @
               (if connected (objs w self) \<and> connection_handler (objs w self) \<noteq> None
                then [Start_handler self False] else []) \<and>
           (0 < n \<longrightarrow> last (effects w') =
             Log WARNING ''[CONNECTION] Reached maximum of attemps to reconnect (%d)'') \<and>
           request_queue w' = request_queue w \<and>
           resolutions (effects w') = resolutions (effects w)"
proof (cases "n = 0")
  case True
  with assms(3) have none: "retry_attemp (objs w self) = None" by simp
  from assms(5) obtain f where f: "fuel = Suc f" by (cases fuel) simp_all
  note step = ws_close_no_retry [OF none]
  note delay = ws_close_no_retry_delay [OF none]
  have "failing_run fuel self w = Some (snd (ws_close self w))"
    using step(3) by (simp add: f ws_error_def)
  then show ?thesis
    using True step delay
    by (simp add: ws_close_queue ws_close_resolutions delayed_attempts_def)
next
  case False
  with assms(3) have some: "retry_attemp (objs w self) = Some 0" by simp
  have "\<exists>w'. failing_run fuel self w = Some w' \<and>
           started self (effects w') = started self (effects w) + nat (retry_max (objs w self) - 0) \<and>
           retry_steps self (effects w') =
             retry_steps self (effects w) @
               delayed_attempts (nat (retry_max (objs w self) - 0))
                 (retry_secs (objs w self)) self (ws_url (objs w self)) \<and>
           handler_calls self (effects w') =
             handler_calls self (effects w) @
               (if connected (objs w self) \<and> connection_handler (objs w self) \<noteq> None
                then [Start_handler self False] else []) \<and>
           last (effects w') =
             Log WARNING ''[CONNECTION] Reached maximum of attemps to reconnect (%d)'' \<and>
           request_queue w' = request_queue w \<and>
           resolutions (effects w') = resolutions (effects w)"
    by (rule failing_run_bounded [OF some]) (use assms in simp_all)
  then show ?thesis using assms(1) by auto
qed

theorem retries_bounded_witness:
  "\<exists>w'. failing_run 3 0 world_handler = Some w' \<and>
         started 0 (effects w') = 2 \<and>
         retry_steps 0 (effects w') =
           [Sleep 10, Start_wsa 0 ''ws://localhost:6680/mopidy/ws'',
            Sleep 10, Start_wsa 0 ''ws://localhost:6680/mopidy/ws''] \<and>
         handler_calls 0 (effects w') = [] \<and>
         last (effects w') =
           Log WARNING ''[CONNECTION] Reached maximum of attemps to reconnect (%d)''"
  using retries_bounded [of world_handler 0 2 3]
  by (auto simp add: world_handler_def client0_def counts_nil retry_steps_def
      delayed_attempts_def numeral_2_eq_2)

subsection \<open>The retry counter\<close>

text \<open>
  C7, as the spec states it: the counter is reset to zero whenever a connection
  opens. \<open>_ws_open\<close> does not touch it. A client with \<open>retry_max = 2\<close> connects, the
  attempt fails, the first retry opens: the client is connected and the counter is 1;
  at the next close it goes on to 2.
\<close>

theorem open_keeps_counter_counterexample:
  "is_connected 0 (run_events 0 [On_error, On_close, On_open]
      (snd (connect 0 None 0 (\<lambda>w. w) world0))) \<and>
   retry_attemp (objs (run_events 0 [On_error, On_close, On_open]
      (snd (connect 0 None 0 (\<lambda>w. w) world0))) 0) = Some 1 \<and>
   retry_attemp (objs (run_events 0 [On_error, On_close, On_open, On_close]
      (snd (connect 0 None 0 (\<lambda>w. w) world0))) 0) = Some 2"
  by (simp add: world0_def client0_def connect_def close_unfold ws_error_def ws_open_def)

text \<open>
  C7, amended: \<open>_ws_open\<close> leaves the counter as it is. \<open>connect\<close>, called on a
  client that is not connected, sets the counter before it starts the attempt: to
  zero, or to \<open>None\<close> when \<open>retry_max\<close> is 0; a \<open>connect\<close> that waits is the one that
  does not wait followed by what the other threads do during the wait.
\<close>

theorem counter_reset:
  "retry_attemp (objs (ws_open self w) self) = retry_attemp (objs w self) \<and>
   (\<not> is_connected self w \<longrightarrow>
      retry_attemp (objs (snd (connect self url 0 env w)) self) =
        (if retry_max (objs w self) = 0 then None else Some 0) \<and>
      (wait_secs \<noteq> 0 \<longrightarrow>
         snd (connect self url wait_secs env w) = env (snd (connect self url 0 env w))))"
  by (simp add: ws_open_simps connect_def Let_def ws_connect_simps emit_simps upd_simps
      split: option.splits)

theorem counter_reset_witness:
  "\<not> is_connected 0 world_retried \<and>
   retry_attemp (objs world_retried 0) = Some 1 \<and>
   retry_attemp (objs (ws_open 0 world_retried) 0) = Some 1 \<and>
   retry_attemp (objs (snd (connect 0 None 0 (\<lambda>w. w) world_retried)) 0) = Some 0 \<and>
   snd (connect 0 None 5 (ws_open 0) world_retried) =
     ws_open 0 (snd (connect 0 None 0 (ws_open 0) world_retried))"
  using counter_reset [of 0 world_retried None "\<lambda>w. w" 5]
    counter_reset [of 0 world_retried None "ws_open 0" 5]
  by (simp add: world_retried_def client0_def is_connected_def)

subsection \<open>Frames that cannot be decoded, and unmatched results\<close>

text \<open>
  C8: \<open>_server_response\<close> never raises, whatever the parser does; a frame that
  fails to decode leaves the world as it was but for the logged exception, so the
  connection stays as it is; and the loop goes on with the frames that follow.
\<close>

theorem server_response_never_raises:
  "fst (server_response parse self m w) = None \<and>
   (decode msg = Inl ex \<longrightarrow>
      server_response (parse_json_message target) self msg w' =
        (None, emit (Log_exception ex) w')) \<and>
   receive_loop parse self (m # ms) w =
     receive_loop parse self ms (snd (server_response parse self m w))"
  by (simp add: server_response_def parse_json_message_def split: prod.splits option.splits)

theorem server_response_never_raises_witness:
  "decode (Garbage ''{'') = Inl MalformedFrame \<and>
   decode (Text (VDict [(''jsonrpc'', VStr ''2.0'')])) = Inl MalformedFrame \<and>
   server_response (parse_json_message 0) 0 (Garbage ''{'') world_pending =
     (None, emit (Log_exception MalformedFrame) world_pending) \<and>
   receive_loop (parse_json_message 0) 0
     [Garbage ''{'', Text (VDict [(''id'', VInt 7), (''result'', VStr ''2.0'')])] world_pending =
   (None, world_pending\<lparr>request_queue := [],
      effects := [Send 0 req7, Log_exception MalformedFrame, Callback req7 (VStr ''2.0'')]\<rparr>)"
  using server_response_never_raises [of "parse_json_message 0" 0 "Garbage ''{''" world_pending
      "Garbage ''{''" MalformedFrame 0 world_pending
      "[Text (VDict [(''id'', VInt 7), (''result'', VStr ''2.0'')])]"]
  by (simp add: decode_object_def server_response_def parse_json_message_def handle_result_def
      emit_def world_pending_def req7_def)

lemma find_request_None: "(find_request i rs = None) = (\<forall>r\<in>set rs. id_msg r \<noteq> i)"
  by (induction rs) auto

text \<open>
  C9: a result whose id matches no request in the queue only logs a warning: the
  queue, every instance and the calls resolved so far are as before.
\<close>

theorem handle_result_unmatched:
  assumes "\<forall>r\<in>set (request_queue w). id_msg r \<noteq> i"
  shows "handle_result self i result w =
           emit (Log WARNING ''Recieved message (id %d) does not match any request'') w \<and>
         request_queue (handle_result self i result w) = request_queue w \<and>
         objs (handle_result self i result w) = objs w \<and>
         resolutions (effects (handle_result self i result w)) = resolutions (effects w)"
proof -
  from assms have "find_request i (request_queue w) = None"
    by (simp add: find_request_None)
  then have "handle_result self i result w =
      emit (Log WARNING ''Recieved message (id %d) does not match any request'') w"
    by (simp add: handle_result_def)
  then show ?thesis
    by (simp add: emit_simps resolutions_def)
qed

theorem handle_result_unmatched_witness:
  "list_all (\<lambda>r. id_msg r \<noteq> 8) (request_queue world_pending) \<and>
   request_queue (handle_result 0 8 (VStr ''2.0'') world_pending) = [req7] \<and>
   effects (handle_result 0 8 (VStr ''2.0'') world_pending) =
     [Send 0 req7, Log WARNING ''Recieved message (id %d) does not match any request'']"
proof -
  have h: "\<forall>r\<in>set (request_queue world_pending). id_msg r \<noteq> 8"
    by (simp add: world_pending_def req7_def)
  from handle_result_unmatched [OF h, of 0 "VStr ''2.0''"] h show ?thesis
    by (simp add: emit_def world_pending_def)
qed

subsection \<open>Connecting twice\<close>

text \<open>
  C10: \<open>connect\<close> on a connected client returns \<open>True\<close> and only logs a warning:
  no instance changes (so the URL and the retry counter stay, whatever \<open>url\<close> is),
  the queue stays, and no connection is started.
\<close>

theorem connect_when_connected:
  assumes "is_connected self w"
  shows "connect self url wait_secs env w =
           (Some True,
            emit (Log WARNING ''[CONNECTION] Already connected to Mopidy Server at %s'') w) \<and>
         objs (snd (connect self url wait_secs env w)) = objs w \<and>
         request_queue (snd (connect self url wait_secs env w)) = request_queue w \<and>
         started self (effects (snd (connect self url wait_secs env w))) =
           started self (effects w)"
  using assms by (simp add: connect_def emit_simps started_def)

theorem connect_when_connected_witness:
  "is_connected 0 world_pending \<and>
   fst (connect 0 (Some ''ws://other:6680/mopidy/ws'') 5 (ws_open 0) world_pending) = Some True \<and>
   ws_url (objs (snd (connect 0 (Some ''ws://other:6680/mopidy/ws'') 5 (ws_open 0) world_pending)) 0)
     = ''ws://localhost:6680/mopidy/ws'' \<and>
   retry_attemp (objs (snd (connect 0 (Some ''ws://other:6680/mopidy/ws'') 5 (ws_open 0)
     world_pending)) 0) = Some 0"
proof -
  have h: "is_connected 0 world_pending"
    by (simp add: is_connected_def world_pending_def client0_def)
  from connect_when_connected [OF h, of "Some ''ws://other:6680/mopidy/ws''" 5 "ws_open 0"] h
  show ?thesis
    by (simp add: world_pending_def client0_def emit_def)
qed

end
